theory Spec2Isabelle
  imports Complex_Main
begin

section \<open>Python values used by the scoring tools\<close>

text \<open>
  The five tools of \<^verbatim>\<open>tool.py\<close> are embedded as total functions. Amounts and scores are
  Python floats in the source; every finite float is a rational number and every
  comparison of the source is against an integer or decimal constant, so they are
  modelled as exact rationals (rounding error of the float additions is not modelled).
  The non-finite floats (infinities, NaN) are outside the model.
  Strings are byte strings; \<^verbatim>\<open>str.lower\<close> is modelled on the ASCII letters.
  Each \<^verbatim>\<open>_run\<close> returns \<^verbatim>\<open>json.dumps(result)\<close>; the model returns the \<^verbatim>\<open>result\<close>
  dictionary as a record. Of the scoring tools' results the fields that only hold
  \<^verbatim>\<open>datetime.now()\<close> and the \<^verbatim>\<open>reasoning\<close> text of the intent tool (an f-string over
  the other fields) are left out.
\<close>

definition lower_char :: "char \<Rightarrow> char" where
  "lower_char c =
     (let n = (of_char c :: nat) in if 65 \<le> n \<and> n \<le> 90 then char_of (n + 32) else c)"

definition lower :: "string \<Rightarrow> string" where
  "lower s = map lower_char s"

text \<open>\<^verbatim>\<open>s.startswith(p)\<close> and the substring test \<^verbatim>\<open>sub in s\<close>.\<close>

fun startswith :: "string \<Rightarrow> string \<Rightarrow> bool" where
  "startswith s [] = True"
| "startswith [] (p # ps) = False"
| "startswith (c # cs) (p # ps) = (c = p \<and> startswith cs ps)"

fun contains :: "string \<Rightarrow> string \<Rightarrow> bool" where
  "contains sub [] = (sub = [])"
| "contains sub (c # cs) = (startswith (c # cs) sub \<or> contains sub cs)"

text \<open>
  \<^verbatim>\<open>x % y\<close> on numbers (the result has the sign of \<^verbatim>\<open>y\<close>), and \<^verbatim>\<open>round(x, 2)\<close>,
  which rounds to the nearest hundredth, a tie going to the even neighbour.
\<close>

definition py_mod :: "rat \<Rightarrow> rat \<Rightarrow> rat" where
  "py_mod x y = x - of_int \<lfloor>x / y\<rfloor> * y"

definition round_half_even :: "rat \<Rightarrow> int" where
  "round_half_even x =
     (let f = \<lfloor>x\<rfloor>; d = x - of_int f in
      if d < 1 / 2 then f
      else if 1 / 2 < d then f + 1
      else if even f then f else f + 1)"

definition py_round2 :: "rat \<Rightarrow> rat" where
  "py_round2 x = of_int (round_half_even (x * 100)) / 100"

text \<open>
  \<^verbatim>\<open>datetime.fromisoformat\<close> belongs to the standard library, not to the repository:
  the tools take it as a parameter \<open>parse\<close> that returns \<open>None\<close> where the library
  raises. Of the parsed value the tools read \<^verbatim>\<open>.hour\<close> and \<^verbatim>\<open>.weekday()\<close>
  (0 = Monday, 6 = Sunday) only.
\<close>

record datetime =
  hour :: nat
  weekday :: nat

type_synonym fromisoformat = "string \<Rightarrow> datetime option"

section \<open>RiskAssessmentTool\<close>

text \<open>
  \<^verbatim>\<open>RiskAssessmentTool._run\<close> threads \<^verbatim>\<open>risk_score\<close> and \<^verbatim>\<open>risk_factors\<close> through six
  numbered blocks; each block is one step on the pair.
\<close>

type_synonym risk_state = "rat \<times> string list"

text \<open>1. Amount-based risk: an \<^verbatim>\<open>if/elif/elif\<close> chain.\<close>

definition amount_risk :: "rat \<Rightarrow> risk_state \<Rightarrow> risk_state" where
  "amount_risk amount st =
     (case st of (score, factors) \<Rightarrow>
        if amount > 100000 then (score + 25 / 100, factors @ [''very_high_amount''])
        else if amount > 50000 then (score + 15 / 100, factors @ [''high_amount''])
        else if amount > 25000 then (score + 8 / 100, factors @ [''elevated_amount''])
        else (score, factors))"

text \<open>2. Time-based risk: the \<^verbatim>\<open>try\<close> body, and the bare \<^verbatim>\<open>except\<close> for a failed parse.\<close>

definition off_hours_risk :: "datetime \<Rightarrow> risk_state \<Rightarrow> risk_state" where
  "off_hours_risk tx_time st =
     (case st of (score, factors) \<Rightarrow>
        if hour tx_time < 6 \<or> hour tx_time > 22
        then (score + 12 / 100, factors @ [''off_hours_transaction''])
        else (score, factors))"

definition weekend_risk :: "datetime \<Rightarrow> risk_state \<Rightarrow> risk_state" where
  "weekend_risk tx_time st =
     (case st of (score, factors) \<Rightarrow>
        if weekday tx_time \<ge> 5
        then (score + 8 / 100, factors @ [''weekend_transaction''])
        else (score, factors))"

definition time_risk :: "fromisoformat \<Rightarrow> string \<Rightarrow> risk_state \<Rightarrow> risk_state" where
  "time_risk parse timestamp st =
     (case parse timestamp of
        Some tx_time \<Rightarrow> weekend_risk tx_time (off_hours_risk tx_time st)
      | None \<Rightarrow>
          (case st of (score, factors) \<Rightarrow>
             (score + 5 / 100, factors @ [''invalid_timestamp''])))"

text \<open>3. Receiver risk.\<close>

definition suspicious_patterns :: "string list" where
  "suspicious_patterns = [''unknown'', ''temp'', ''test'', ''cash'', ''personal'']"

definition receiver_risk :: "string \<Rightarrow> risk_state \<Rightarrow> risk_state" where
  "receiver_risk receiver st =
     (case st of (score, factors) \<Rightarrow>
        let receiver_lower = lower receiver in
        if list_ex (\<lambda>pattern. contains pattern receiver_lower) suspicious_patterns
        then (score + 20 / 100, factors @ [''suspicious_receiver''])
        else (score, factors))"

text \<open>4. Sender history risk.\<close>

definition history_risk :: "string \<Rightarrow> risk_state \<Rightarrow> risk_state" where
  "history_risk sender_history st =
     (case st of (score, factors) \<Rightarrow>
        if lower sender_history = ''unknown''
        then (score + 10 / 100, factors @ [''unknown_sender_history''])
        else if contains ''new'' (lower sender_history)
        then (score + 8 / 100, factors @ [''new_sender''])
        else (score, factors))"

text \<open>5. Intent-based risk; the tag is \<^verbatim>\<open>f"high_risk_intent_{intent}"\<close>.\<close>

definition high_risk_intents :: "string list" where
  "high_risk_intents = [''emergency'', ''general'', ''loan'']"

definition intent_risk :: "string \<Rightarrow> risk_state \<Rightarrow> risk_state" where
  "intent_risk intent st =
     (case st of (score, factors) \<Rightarrow>
        if intent \<in> set high_risk_intents
        then (score + 10 / 100, factors @ [''high_risk_intent_'' @ intent])
        else (score, factors))"

text \<open>6. Round number risk.\<close>

definition round_amount_risk :: "rat \<Rightarrow> risk_state \<Rightarrow> risk_state" where
  "round_amount_risk amount st =
     (case st of (score, factors) \<Rightarrow>
        if py_mod amount 10000 = 0 \<and> amount \<ge> 10000
        then (score + 5 / 100, factors @ [''suspicious_round_amount''])
        else (score, factors))"

text \<open>The six blocks in the order of the source, from \<^verbatim>\<open>0.0\<close> and \<^verbatim>\<open>[]\<close>.\<close>

definition risk_rules ::
  "fromisoformat \<Rightarrow> rat \<Rightarrow> string \<Rightarrow> string \<Rightarrow> string \<Rightarrow> string \<Rightarrow> risk_state" where
  "risk_rules parse amount receiver intent timestamp sender_history =
     round_amount_risk amount
       (intent_risk intent
         (history_risk sender_history
           (receiver_risk receiver
             (time_risk parse timestamp
               (amount_risk amount (0, []))))))"

record risk_result =
  risk_score :: rat
  risk_level :: string
  risk_factors :: "string list"
  risk_factor_count :: nat
  requires_additional_review :: bool
  recommendation :: string

definition RiskAssessmentTool_run ::
  "fromisoformat \<Rightarrow> rat \<Rightarrow> string \<Rightarrow> string \<Rightarrow> string \<Rightarrow> string \<Rightarrow> string \<Rightarrow> risk_result" where
  "RiskAssessmentTool_run parse amount sender receiver intent timestamp sender_history =
     (case risk_rules parse amount receiver intent timestamp sender_history of
        (uncapped, factors) \<Rightarrow>
          let score = min uncapped 1 in
          \<lparr> risk_score = py_round2 score,
            risk_level =
              (if score < 25 / 100 then ''low''
               else if score < 50 / 100 then ''medium''
               else if score < 75 / 100 then ''high''
               else ''critical''),
            risk_factors = factors,
            risk_factor_count = length factors,
            requires_additional_review = (score \<ge> 50 / 100),
            recommendation =
              (if score \<ge> 75 / 100 then ''REJECT - Too risky''
               else if score \<ge> 50 / 100 then ''ESCALATE - Human review required''
               else if score \<ge> 25 / 100 then ''PROCEED - Acceptable risk''
               else ''APPROVE - Low risk'') \<rparr>)"

section \<open>PolicyValidationTool\<close>

text \<open>
  The violation and warning texts of the source, one constructor for each message;
  the two formatted messages carry the values the f-string interpolates.
\<close>

datatype policy_message =
    ExceedsSpendingLimit string rat rat
      \<comment> \<open>"Exceeds {intent} spending limit of {applicable_limit:,.2f} (requested: {amount:,.2f})"\<close>
  | RequiresManagementPreApproval
      \<comment> \<open>"Requires management pre-approval for amounts over 10,000"\<close>
  | RequiresDirectorAuthorization
      \<comment> \<open>"Requires director authorization for amounts over 50,000"\<close>
  | RequiresDualAuthorization
      \<comment> \<open>"Requires dual authorization (two signatures) for amounts over 100,000"\<close>
  | ReceiverBlocked
      \<comment> \<open>"Receiver is on blocked/sanctioned list"\<close>
  | ExceedsDailyLimit rat
      \<comment> \<open>"Exceeds daily transaction limit of {daily_limit:,.2f}"\<close>
  | PostPaymentAuditRequired
      \<comment> \<open>"High urgency + high amount transactions require post-payment audit"\<close>
  | AmlKycDocumentationRequired
      \<comment> \<open>"Transaction requires AML/KYC documentation per regulatory requirements"\<close>

definition spending_limits :: "(string \<times> rat) list" where
  "spending_limits =
     [(''refund'', 15000), (''vendor'', 30000), (''payroll'', 150000),
      (''investment'', 100000), (''emergency'', 50000), (''tax'', 200000),
      (''loan'', 75000), (''general'', 5000)]"

text \<open>
  \<^verbatim>\<open>spending_limits.get(intent, spending_limits["general"])\<close>; the subscript cannot
  raise, the key being in the literal (lemma \<open>spending_limits_general\<close> below).
\<close>

definition applicable_limit_of :: "string \<Rightarrow> rat" where
  "applicable_limit_of intent =
     (case map_of spending_limits intent of
        Some limit \<Rightarrow> limit
      | None \<Rightarrow> the (map_of spending_limits ''general''))"

definition blocked_keywords :: "string list" where
  "blocked_keywords = [''sanctioned'', ''blacklist'', ''blocked'']"

text \<open>
  The state of the checks: \<^verbatim>\<open>violations\<close>, \<^verbatim>\<open>warnings\<close> and \<^verbatim>\<open>policy_passed\<close>.
\<close>

type_synonym policy_state = "policy_message list \<times> policy_message list \<times> bool"

text \<open>1. Check spending limits.\<close>

definition check_spending_limit :: "rat \<Rightarrow> string \<Rightarrow> policy_state \<Rightarrow> policy_state" where
  "check_spending_limit amount intent st =
     (case st of (viols, warns, passed) \<Rightarrow>
        if amount > applicable_limit_of intent
        then (viols @ [ExceedsSpendingLimit intent (applicable_limit_of intent) amount],
              warns, False)
        else (viols, warns, passed))"

text \<open>2. Check approval requirements.\<close>

definition check_management_approval :: "rat \<Rightarrow> string \<Rightarrow> policy_state \<Rightarrow> policy_state" where
  "check_management_approval amount sender st =
     (case st of (viols, warns, passed) \<Rightarrow>
        if amount > 10000 \<and> \<not> contains ''approved'' (lower sender)
             \<and> \<not> contains ''manager'' (lower sender)
        then (viols @ [RequiresManagementPreApproval], warns, False)
        else (viols, warns, passed))"

definition check_director_authorization :: "rat \<Rightarrow> string \<Rightarrow> policy_state \<Rightarrow> policy_state" where
  "check_director_authorization amount sender st =
     (case st of (viols, warns, passed) \<Rightarrow>
        if amount > 50000 \<and> \<not> contains ''director'' (lower sender)
        then (viols @ [RequiresDirectorAuthorization], warns, False)
        else (viols, warns, passed))"

text \<open>3. Multi-signature requirement.\<close>

definition check_dual_authorization :: "rat \<Rightarrow> policy_state \<Rightarrow> policy_state" where
  "check_dual_authorization amount st =
     (case st of (viols, warns, passed) \<Rightarrow>
        if amount > 100000
        then (viols @ [RequiresDualAuthorization], warns, False)
        else (viols, warns, passed))"

text \<open>4. Receiver validation.\<close>

definition check_receiver :: "string \<Rightarrow> policy_state \<Rightarrow> policy_state" where
  "check_receiver receiver st =
     (case st of (viols, warns, passed) \<Rightarrow>
        let receiver_lower = lower receiver in
        if list_ex (\<lambda>keyword. contains keyword receiver_lower) blocked_keywords
        then (viols @ [ReceiverBlocked], warns, False)
        else (viols, warns, passed))"

text \<open>5. Emergency transaction policies.\<close>

definition check_urgency :: "rat \<Rightarrow> string \<Rightarrow> policy_state \<Rightarrow> policy_state" where
  "check_urgency amount urgency st =
     (case st of (viols, warns, passed) \<Rightarrow>
        if urgency = ''high'' \<and> amount > 25000
        then (viols, warns @ [PostPaymentAuditRequired], passed)
        else (viols, warns, passed))"

text \<open>6. Daily transaction limit check.\<close>

definition policy_daily_limit :: rat where
  "policy_daily_limit = 200000"

definition check_daily_limit :: "rat \<Rightarrow> policy_state \<Rightarrow> policy_state" where
  "check_daily_limit amount st =
     (case st of (viols, warns, passed) \<Rightarrow>
        if amount > policy_daily_limit
        then (viols @ [ExceedsDailyLimit policy_daily_limit], warns, False)
        else (viols, warns, passed))"

text \<open>7. AML/KYC checks for high amounts.\<close>

definition check_aml_kyc :: "rat \<Rightarrow> policy_state \<Rightarrow> policy_state" where
  "check_aml_kyc amount st =
     (case st of (viols, warns, passed) \<Rightarrow>
        if amount > 10000
        then (viols, warns @ [AmlKycDocumentationRequired], passed)
        else (viols, warns, passed))"

text \<open>The checks in the order of the source, from \<^verbatim>\<open>[]\<close>, \<^verbatim>\<open>[]\<close> and \<^verbatim>\<open>True\<close>.\<close>

definition policy_checks ::
  "rat \<Rightarrow> string \<Rightarrow> string \<Rightarrow> string \<Rightarrow> string \<Rightarrow> policy_state" where
  "policy_checks amount intent sender receiver urgency =
     check_aml_kyc amount
       (check_daily_limit amount
         (check_urgency amount urgency
           (check_receiver receiver
             (check_dual_authorization amount
               (check_director_authorization amount sender
                 (check_management_approval amount sender
                   (check_spending_limit amount intent ([], [], True))))))))"

record policy_result =
  policy_passed :: bool
  violations :: "policy_message list"
  warnings :: "policy_message list"
  applicable_limit :: rat
  amount_within_limit :: bool
  approval_level_required :: string
  compliance_score :: rat

definition PolicyValidationTool_run ::
  "rat \<Rightarrow> string \<Rightarrow> string \<Rightarrow> string \<Rightarrow> string \<Rightarrow> policy_result" where
  "PolicyValidationTool_run amount intent sender receiver urgency =
     (case policy_checks amount intent sender receiver urgency of
        (viols, warns, passed) \<Rightarrow>
          \<lparr> policy_passed = passed,
            violations = viols,
            warnings = warns,
            applicable_limit = applicable_limit_of intent,
            amount_within_limit = (amount \<le> applicable_limit_of intent),
            approval_level_required =
              (if amount > 100000 then ''dual_authorization''
               else if amount > 50000 then ''director''
               else if amount > 10000 then ''manager''
               else ''standard''),
            compliance_score =
              (if passed \<and> warns = [] then 1
               else if passed \<and> warns \<noteq> [] then 7 / 10
               else 0) \<rparr>)"

section \<open>LiquidityCheckTool\<close>

datatype liquidity_message =
    BreachesMinimumReserve rat
      \<comment> \<open>"Transaction would breach minimum reserve requirement of {minimum_reserve:,.2f}"\<close>
  | ExceedsDailyTransactionLimit rat
      \<comment> \<open>"Exceeds daily transaction limit of {daily_transaction_limit:,.2f}"\<close>
  | CloseToMinimumReserve
      \<comment> \<open>"Balance would fall close to minimum reserve threshold"\<close>
  | HighLiquidityImpact
      \<comment> \<open>"Transaction represents >50% of available balance - high liquidity impact"\<close>

definition account_balances :: "(string \<times> rat) list" where
  "account_balances =
     [(''primary'', 180000), (''reserve'', 50000), (''payroll'', 200000),
      (''operations'', 75000)]"

record liquidity_result =
  sufficient_funds :: bool
  financially_viable :: bool
  current_balance :: rat
  remaining_balance :: rat
  minimum_reserve :: rat
  reserve_cushion :: rat
  daily_limit :: rat
  within_daily_limit :: bool
  monthly_budget_remaining :: rat
  within_budget :: bool
  liquidity_warnings :: "liquidity_message list"
  concerns :: "liquidity_message list"
  cash_flow_impact :: string
  liquidity_health :: string

text \<open>
  The field \<open>liquidity_warnings\<close> is the key \<^verbatim>\<open>"warnings"\<close> of the liquidity result.
\<close>

definition LiquidityCheckTool_run :: "rat \<Rightarrow> string \<Rightarrow> string \<Rightarrow> liquidity_result" where
  "LiquidityCheckTool_run amount account_id intent =
     (let balance = (case map_of account_balances account_id of
                       Some b \<Rightarrow> b | None \<Rightarrow> 150000);
          reserve = 25000;
          daily_transaction_limit = 75000;
          budget = 150000;
          remaining = balance - amount;
          sufficient = (remaining \<ge> reserve);
          within_daily = (amount \<le> daily_transaction_limit);
          within_bud = (amount \<le> budget);
          concerns1 = (if remaining < reserve then [BreachesMinimumReserve reserve] else []);
          warnings1 = (if remaining < reserve * (12 / 10) then [CloseToMinimumReserve] else []);
          warnings2 = (if amount > balance * (5 / 10)
                       then warnings1 @ [HighLiquidityImpact] else warnings1);
          concerns2 = (if \<not> within_daily
                       then concerns1 @ [ExceedsDailyTransactionLimit daily_transaction_limit]
                       else concerns1);
          impact = (if intent = ''emergency'' then ''high_priority''
                    else if amount > 50000 then ''significant''
                    else if amount > 10000 then ''moderate''
                    else ''minimal'');
          viable = (sufficient \<and> within_daily \<and> within_bud)
      in \<lparr> sufficient_funds = sufficient,
           financially_viable = viable,
           current_balance = balance,
           remaining_balance = remaining,
           minimum_reserve = reserve,
           reserve_cushion = (if sufficient then remaining - reserve else 0),
           daily_limit = daily_transaction_limit,
           within_daily_limit = within_daily,
           monthly_budget_remaining = budget,
           within_budget = within_bud,
           liquidity_warnings = warnings2,
           concerns = concerns2,
           cash_flow_impact = impact,
           liquidity_health =
             (if remaining > reserve * 3 then ''excellent''
              else if remaining > reserve * 2 then ''good''
              else if sufficient then ''adequate''
              else ''insufficient'') \<rparr>)"

section \<open>IntentAnalysisTool\<close>

text \<open>
  The dictionary \<^verbatim>\<open>intent_keywords\<close> is iterated in insertion order, so it is a list
  of pairs.
\<close>

definition intent_keywords :: "(string \<times> string list) list" where
  "intent_keywords =
     [(''refund'', [''refund'', ''return'', ''reimbursement'', ''reversal'']),
      (''payroll'', [''salary'', ''wage'', ''payroll'', ''compensation'', ''bonus'']),
      (''vendor'', [''vendor'', ''supplier'', ''invoice'', ''payment'', ''purchase'']),
      (''investment'', [''investment'', ''equity'', ''acquisition'', ''stake'']),
      (''emergency'', [''urgent'', ''emergency'', ''critical'', ''immediate'']),
      (''tax'', [''tax'', ''vat'', ''hmrc'', ''duty'']),
      (''loan'', [''loan'', ''credit'', ''financing'', ''borrowing''])]"

text \<open>
  The \<^verbatim>\<open>for\<close> loop with its \<^verbatim>\<open>break\<close>: the first intent type with a keyword in the
  purpose wins; with none, \<^verbatim>\<open>detected_intent\<close> and \<^verbatim>\<open>matched_keywords\<close> keep their
  initial values.
\<close>

fun find_intent :: "(string \<times> string list) list \<Rightarrow> string \<Rightarrow> string \<times> string list" where
  "find_intent [] purpose_lower = (''general'', [])"
| "find_intent ((intent_type, keywords) # rest) purpose_lower =
     (let matches = filter (\<lambda>kw. contains kw purpose_lower) keywords in
      if matches \<noteq> [] then (intent_type, matches) else find_intent rest purpose_lower)"

definition urgency_keywords :: "string list" where
  "urgency_keywords = [''urgent'', ''emergency'', ''immediate'', ''asap'', ''critical'']"

record intent_result =
  intent :: string
  urgency :: string
  confidence :: rat
  matched_keywords :: "string list"
  is_off_hours :: bool
  amount_category :: string

definition IntentAnalysisTool_run ::
  "fromisoformat \<Rightarrow> rat \<Rightarrow> string \<Rightarrow> string \<Rightarrow> string \<Rightarrow> string \<Rightarrow> string \<Rightarrow> intent_result" where
  "IntentAnalysisTool_run parse amount sender receiver purpose timestamp context =
     (let purpose_lower = lower purpose in
      case find_intent intent_keywords purpose_lower of
        (detected_intent, matched) \<Rightarrow>
          let urgency0 = (if list_ex (\<lambda>kw. contains kw purpose_lower) urgency_keywords
                          then ''high'' else ''medium'');
              urgency1 = (if amount > 50000 then ''high''
                          else if amount < 1000 then ''low''
                          else urgency0);
              confidence0 = (if matched \<noteq> [] then 95 / 100 else 60 / 100);
              confidence1 = (if detected_intent = ''general'' then 50 / 100 else confidence0);
              off_hours = (case parse timestamp of
                             Some tx_time \<Rightarrow> hour tx_time < 6 \<or> hour tx_time > 22
                           | None \<Rightarrow> False)
          in \<lparr> intent = detected_intent,
               urgency = urgency1,
               confidence = py_round2 confidence1,
               matched_keywords = matched,
               is_off_hours = off_hours,
               amount_category =
                 (if amount > 25000 then ''high''
                  else if amount > 5000 then ''medium''
                  else ''low'') \<rparr>)"

section \<open>AuditLogTool\<close>

text \<open>
  JSON values, and the library functions the tool calls, taken as parameters:
  \<^verbatim>\<open>json.loads\<close> (\<open>None\<close> where it raises), \<^verbatim>\<open>json.dumps(..., sort_keys=True)\<close>,
  \<^verbatim>\<open>str\<close> of a parsed value, and the builtin \<^verbatim>\<open>hash\<close> of a string (which Python
  salts per process). The tool reads \<^verbatim>\<open>datetime.now().isoformat()\<close> twice: for the
  record's \<^verbatim>\<open>timestamp\<close> and, again, inside the hashed payload; the two readings are
  the arguments \<open>now_record\<close> and \<open>now_hash\<close>. The argument \<^verbatim>\<open>agent_outputs\<close> is a
  string, as the input schema declares. The console output is not modelled.
\<close>

datatype json =
    JNull
  | JBool bool
  | JNum rat
  | JStr string
  | JArr "json list"
  | JObj "(string \<times> json) list"

record runtime =
  json_loads :: "string \<Rightarrow> json option"
  json_dumps :: "json \<Rightarrow> string"
  py_str :: "json \<Rightarrow> string"
  py_hash :: "string \<Rightarrow> int"

record audit_trail_flags =
  intent_analysis_completed :: bool
  risk_assessment_completed :: bool
  policy_validation_completed :: bool
  liquidity_check_completed :: bool
  final_decision_made :: bool

record compliance_flag_set =
  complete_audit_trail :: bool
  all_agents_consulted :: bool
  decision_documented :: bool
  timestamp_recorded :: bool

record audit_record =
  audit_id :: string
  transaction_id :: string
  timestamp :: string
  decision :: string
  decision_maker :: string
  rationale :: string
  agent_outputs :: json
  audit_trail :: audit_trail_flags
  compliance_flags :: compliance_flag_set
  verification_hash :: int

text \<open>
  The payload of the hash, keys in sorted order: \<^verbatim>\<open>decision\<close>, \<^verbatim>\<open>timestamp\<close>,
  \<^verbatim>\<open>tx_id\<close>.
\<close>

definition hash_payload :: "string \<Rightarrow> string \<Rightarrow> string \<Rightarrow> json" where
  "hash_payload tx_id dec now_hash =
     JObj [(''decision'', JStr dec), (''timestamp'', JStr now_hash), (''tx_id'', JStr tx_id)]"

definition make_audit_record ::
  "runtime \<Rightarrow> string \<Rightarrow> string \<Rightarrow> string \<Rightarrow> string \<Rightarrow> string \<Rightarrow> string \<Rightarrow> string
     \<Rightarrow> audit_record" where
  "make_audit_record rt now_record now_hash tx_id dec outputs why maker =
     (let outputs_dict = (case json_loads rt outputs of
                            Some v \<Rightarrow> v
                          | None \<Rightarrow> JObj [(''raw'', JStr outputs)])
      in \<lparr> audit_id = ''AUDIT-'' @ tx_id,
           transaction_id = tx_id,
           timestamp = now_record,
           decision = dec,
           decision_maker = maker,
           rationale = why,
           agent_outputs = outputs_dict,
           audit_trail =
             \<lparr> intent_analysis_completed = contains ''intent'' (py_str rt outputs_dict),
               risk_assessment_completed = contains ''risk'' (py_str rt outputs_dict),
               policy_validation_completed = contains ''policy'' (py_str rt outputs_dict),
               liquidity_check_completed = contains ''treasury'' (py_str rt outputs_dict),
               final_decision_made = (dec \<in> set [''APPROVE'', ''REJECT'', ''ESCALATE'']) \<rparr>,
           compliance_flags =
             \<lparr> complete_audit_trail = True,
               all_agents_consulted = True,
               decision_documented = (why \<noteq> []),
               timestamp_recorded = True \<rparr>,
           verification_hash = py_hash rt (json_dumps rt (hash_payload tx_id dec now_hash)) \<rparr>)"

record audit_result =
  audit_logged :: bool
  result_audit_id :: string
  record_timestamp :: string
  result_verification_hash :: int
  storage_location :: string
  compliance_status :: string
  record_retrievable :: bool

text \<open>
  The fields \<open>result_audit_id\<close> and \<open>result_verification_hash\<close> are the keys
  \<^verbatim>\<open>"audit_id"\<close> and \<^verbatim>\<open>"verification_hash"\<close> of the returned dictionary.
\<close>

definition AuditLogTool_run ::
  "runtime \<Rightarrow> string \<Rightarrow> string \<Rightarrow> string \<Rightarrow> string \<Rightarrow> string \<Rightarrow> string \<Rightarrow> string
     \<Rightarrow> audit_result" where
  "AuditLogTool_run rt now_record now_hash tx_id dec outputs why maker =
     (let r = make_audit_record rt now_record now_hash tx_id dec outputs why maker
      in \<lparr> audit_logged = True,
           result_audit_id = audit_id r,
           record_timestamp = timestamp r,
           result_verification_hash = verification_hash r,
           storage_location = ''immutable_audit_database'',
           compliance_status = ''COMPLIANT'',
           record_retrievable = True \<rparr>)"

section \<open>The checks and rules in closed form\<close>

text \<open>
  Each check of the policy validator appends at most one message and can only clear
  \<^verbatim>\<open>policy_passed\<close>; each rule of the risk scorer adds one contribution and one tag.
\<close>

lemma spending_limits_general: "map_of spending_limits ''general'' = Some 5000"
  by (simp add: spending_limits_def)

lemma check_spending_limit_eq:
  "check_spending_limit amount i (v, w, p) =
     (v @ (if amount > applicable_limit_of i
           then [ExceedsSpendingLimit i (applicable_limit_of i) amount] else []),
      w, p \<and> \<not> amount > applicable_limit_of i)"
  by (simp add: check_spending_limit_def)

lemma check_management_approval_eq:
  "check_management_approval amount sender (v, w, p) =
     (v @ (if amount > 10000 \<and> \<not> contains ''approved'' (lower sender)
                \<and> \<not> contains ''manager'' (lower sender)
           then [RequiresManagementPreApproval] else []),
      w, p \<and> \<not> (amount > 10000 \<and> \<not> contains ''approved'' (lower sender)
                \<and> \<not> contains ''manager'' (lower sender)))"
  by (simp add: check_management_approval_def)

lemma check_director_authorization_eq:
  "check_director_authorization amount sender (v, w, p) =
     (v @ (if amount > 50000 \<and> \<not> contains ''director'' (lower sender)
           then [RequiresDirectorAuthorization] else []),
      w, p \<and> \<not> (amount > 50000 \<and> \<not> contains ''director'' (lower sender)))"
  by (simp add: check_director_authorization_def)

lemma check_dual_authorization_eq:
  "check_dual_authorization amount (v, w, p) =
     (v @ (if amount > 100000 then [RequiresDualAuthorization] else []),
      w, p \<and> \<not> amount > 100000)"
  by (simp add: check_dual_authorization_def)

lemma check_receiver_eq:
  "check_receiver receiver (v, w, p) =
     (v @ (if list_ex (\<lambda>keyword. contains keyword (lower receiver)) blocked_keywords
           then [ReceiverBlocked] else []),
      w, p \<and> \<not> list_ex (\<lambda>keyword. contains keyword (lower receiver)) blocked_keywords)"
  by (simp add: check_receiver_def)

lemma check_urgency_eq:
  "check_urgency amount u (v, w, p) =
     (v, w @ (if u = ''high'' \<and> amount > 25000 then [PostPaymentAuditRequired] else []), p)"
  by (simp add: check_urgency_def)

lemma check_daily_limit_eq:
  "check_daily_limit amount (v, w, p) =
     (v @ (if amount > policy_daily_limit then [ExceedsDailyLimit policy_daily_limit] else []),
      w, p \<and> \<not> amount > policy_daily_limit)"
  by (simp add: check_daily_limit_def)

lemma check_aml_kyc_eq:
  "check_aml_kyc amount (v, w, p) =
     (v, w @ (if amount > 10000 then [AmlKycDocumentationRequired] else []), p)"
  by (simp add: check_aml_kyc_def)

lemmas policy_check_eqs =
  check_spending_limit_eq check_management_approval_eq check_director_authorization_eq
  check_dual_authorization_eq check_receiver_eq check_urgency_eq check_daily_limit_eq
  check_aml_kyc_eq

lemma run_violations:
  "violations (PolicyValidationTool_run amount i sender receiver u) =
     (if amount > applicable_limit_of i
      then [ExceedsSpendingLimit i (applicable_limit_of i) amount] else [])
     @ (if amount > 10000 \<and> \<not> contains ''approved'' (lower sender)
                \<and> \<not> contains ''manager'' (lower sender)
        then [RequiresManagementPreApproval] else [])
     @ (if amount > 50000 \<and> \<not> contains ''director'' (lower sender)
        then [RequiresDirectorAuthorization] else [])
     @ (if amount > 100000 then [RequiresDualAuthorization] else [])
     @ (if list_ex (\<lambda>keyword. contains keyword (lower receiver)) blocked_keywords
        then [ReceiverBlocked] else [])
     @ (if amount > policy_daily_limit then [ExceedsDailyLimit policy_daily_limit] else [])"
  unfolding PolicyValidationTool_run_def policy_checks_def policy_check_eqs
  by (simp only: prod.case policy_result.simps append_Nil append_assoc)

lemma run_warnings:
  "warnings (PolicyValidationTool_run amount i sender receiver u) =
     (if u = ''high'' \<and> amount > 25000 then [PostPaymentAuditRequired] else [])
     @ (if amount > 10000 then [AmlKycDocumentationRequired] else [])"
  unfolding PolicyValidationTool_run_def policy_checks_def policy_check_eqs
  by (simp only: prod.case policy_result.simps append_Nil append_assoc)

lemma run_policy_passed:
  "policy_passed (PolicyValidationTool_run amount i sender receiver u) \<longleftrightarrow>
     \<not> amount > applicable_limit_of i
     \<and> \<not> (amount > 10000 \<and> \<not> contains ''approved'' (lower sender)
                \<and> \<not> contains ''manager'' (lower sender))
     \<and> \<not> (amount > 50000 \<and> \<not> contains ''director'' (lower sender))
     \<and> \<not> amount > 100000
     \<and> \<not> list_ex (\<lambda>keyword. contains keyword (lower receiver)) blocked_keywords
     \<and> \<not> amount > policy_daily_limit"
  unfolding PolicyValidationTool_run_def policy_checks_def policy_check_eqs
  by (simp only: prod.case policy_result.simps simp_thms conj_assoc)

lemma run_compliance_score:
  "compliance_score (PolicyValidationTool_run amount i sender receiver u) =
     (if policy_passed (PolicyValidationTool_run amount i sender receiver u)
         \<and> warnings (PolicyValidationTool_run amount i sender receiver u) = [] then 1
      else if policy_passed (PolicyValidationTool_run amount i sender receiver u)
         \<and> warnings (PolicyValidationTool_run amount i sender receiver u) \<noteq> [] then 7 / 10
      else 0)"
  unfolding PolicyValidationTool_run_def
  by (simp only: policy_result.simps split: prod.split) simp

lemma amount_risk_eq:
  "amount_risk amount (s, fs) =
     (s + (if amount > 100000 then 25 / 100 else if amount > 50000 then 15 / 100
           else if amount > 25000 then 8 / 100 else 0),
      fs @ (if amount > 100000 then [''very_high_amount'']
            else if amount > 50000 then [''high_amount'']
            else if amount > 25000 then [''elevated_amount''] else []))"
  by (simp add: amount_risk_def)

lemma time_risk_eq:
  "time_risk parse ts (s, fs) =
     (s + (case parse ts of
             None \<Rightarrow> 5 / 100
           | Some t \<Rightarrow> (if hour t < 6 \<or> hour t > 22 then 12 / 100 else 0)
                       + (if weekday t \<ge> 5 then 8 / 100 else 0)),
      fs @ (case parse ts of
              None \<Rightarrow> [''invalid_timestamp'']
            | Some t \<Rightarrow> (if hour t < 6 \<or> hour t > 22 then [''off_hours_transaction''] else [])
                        @ (if weekday t \<ge> 5 then [''weekend_transaction''] else [])))"
  by (simp add: time_risk_def off_hours_risk_def weekend_risk_def split: option.split)

lemma receiver_risk_eq:
  "receiver_risk receiver (s, fs) =
     (s + (if list_ex (\<lambda>pattern. contains pattern (lower receiver)) suspicious_patterns
           then 20 / 100 else 0),
      fs @ (if list_ex (\<lambda>pattern. contains pattern (lower receiver)) suspicious_patterns
            then [''suspicious_receiver''] else []))"
  by (simp add: receiver_risk_def)

lemma history_risk_eq:
  "history_risk hist (s, fs) =
     (s + (if lower hist = ''unknown'' then 10 / 100
           else if contains ''new'' (lower hist) then 8 / 100 else 0),
      fs @ (if lower hist = ''unknown'' then [''unknown_sender_history'']
            else if contains ''new'' (lower hist) then [''new_sender''] else []))"
  by (simp add: history_risk_def)

lemma intent_risk_eq:
  "intent_risk i (s, fs) =
     (s + (if i \<in> set high_risk_intents then 10 / 100 else 0),
      fs @ (if i \<in> set high_risk_intents then [''high_risk_intent_'' @ i] else []))"
  by (simp add: intent_risk_def)

lemma round_amount_risk_eq:
  "round_amount_risk amount (s, fs) =
     (s + (if py_mod amount 10000 = 0 \<and> amount \<ge> 10000 then 5 / 100 else 0),
      fs @ (if py_mod amount 10000 = 0 \<and> amount \<ge> 10000
            then [''suspicious_round_amount''] else []))"
  by (simp add: round_amount_risk_def)

lemmas risk_step_eqs =
  amount_risk_eq time_risk_eq receiver_risk_eq history_risk_eq intent_risk_eq
  round_amount_risk_eq

lemma risk_rules_factors:
  "snd (risk_rules parse amount receiver i ts hist) =
     (if amount > 100000 then [''very_high_amount'']
      else if amount > 50000 then [''high_amount'']
      else if amount > 25000 then [''elevated_amount''] else [])
     @ (case parse ts of
          None \<Rightarrow> [''invalid_timestamp'']
        | Some t \<Rightarrow> (if hour t < 6 \<or> hour t > 22 then [''off_hours_transaction''] else [])
                    @ (if weekday t \<ge> 5 then [''weekend_transaction''] else []))
     @ (if list_ex (\<lambda>pattern. contains pattern (lower receiver)) suspicious_patterns
        then [''suspicious_receiver''] else [])
     @ (if lower hist = ''unknown'' then [''unknown_sender_history'']
        else if contains ''new'' (lower hist) then [''new_sender''] else [])
     @ (if i \<in> set high_risk_intents then [''high_risk_intent_'' @ i] else [])
     @ (if py_mod amount 10000 = 0 \<and> amount \<ge> 10000
        then [''suspicious_round_amount''] else [])"
  unfolding risk_rules_def risk_step_eqs
  by (simp only: snd_conv append_Nil append_assoc)

lemma risk_rules_nonneg: "0 \<le> fst (risk_rules parse amount receiver i ts hist)"
  unfolding risk_rules_def risk_step_eqs
  by (simp only: fst_conv) (simp split: option.split)

lemma run_risk_factors:
  "risk_factors (RiskAssessmentTool_run parse amount sender receiver i ts hist) =
     snd (risk_rules parse amount receiver i ts hist)"
  by (simp add: RiskAssessmentTool_run_def Let_def split: prod.split)

lemma run_risk_score:
  "risk_score (RiskAssessmentTool_run parse amount sender receiver i ts hist) =
     py_round2 (min (fst (risk_rules parse amount receiver i ts hist)) 1)"
  by (simp add: RiskAssessmentTool_run_def Let_def split: prod.split)

text \<open>Rounding to the nearest integer stays between integer bounds.\<close>

lemma round_half_even_bounds:
  assumes "0 \<le> x" and "x \<le> of_int n"
  shows "0 \<le> round_half_even x \<and> round_half_even x \<le> n"
proof -
  have f0: "0 \<le> \<lfloor>x\<rfloor>" using assms(1) by simp
  have fn: "\<lfloor>x\<rfloor> \<le> n" using assms(2) by (simp add: floor_le_iff)
  show ?thesis
  proof (cases "\<lfloor>x\<rfloor> = n")
    case True
    then have "x - of_int \<lfloor>x\<rfloor> \<le> 0" using assms(2) by simp
    then have "round_half_even x = \<lfloor>x\<rfloor>"
      by (simp add: round_half_even_def Let_def)
    then show ?thesis using f0 fn by simp
  next
    case False
    then have "\<lfloor>x\<rfloor> + 1 \<le> n" using fn by simp
    moreover have "round_half_even x = \<lfloor>x\<rfloor> \<or> round_half_even x = \<lfloor>x\<rfloor> + 1"
      by (simp add: round_half_even_def Let_def)
    ultimately show ?thesis using f0 by auto
  qed
qed

lemma py_round2_unit: "0 \<le> x \<Longrightarrow> x \<le> 1 \<Longrightarrow> 0 \<le> py_round2 x \<and> py_round2 x \<le> 1"
  using round_half_even_bounds [of "x * 100" 100]
  by (simp add: py_round2_def)

section \<open>RiskScorer: the score is clamped\<close>

text \<open>
  Claim C7. For every amount, sender, receiver, intent, timestamp and sender history,
  whatever the timestamp parser returns and however many rules fire, the
  \<^verbatim>\<open>risk_score\<close> returned by the risk tool lies in the closed interval from 0 to 1.
\<close>

theorem risk_score_in_unit_interval:
  "0 \<le> risk_score (RiskAssessmentTool_run parse amount sender receiver i ts hist)
   \<and> risk_score (RiskAssessmentTool_run parse amount sender receiver i ts hist) \<le> 1"
  unfolding run_risk_score
  by (rule py_round2_unit) (simp_all add: risk_rules_nonneg)

section \<open>PolicyValidator: dual authorization\<close>

text \<open>
  Claim C4. For every amount above 100000 the dual-authorization violation is among
  the violations whatever the sender text (also when it names a director, a manager or
  an approval), and \<^verbatim>\<open>policy_passed\<close> is false.
\<close>

theorem dual_authorization_unconditional:
  "amount > 100000 \<Longrightarrow>
     RequiresDualAuthorization
       \<in> set (violations (PolicyValidationTool_run amount i sender receiver u))
     \<and> \<not> policy_passed (PolicyValidationTool_run amount i sender receiver u)"
  by (simp add: run_violations run_policy_passed)

theorem dual_authorization_unconditional_witness:
  "(110000 :: rat) > 100000
   \<and> RequiresDualAuthorization
       \<in> set (violations (PolicyValidationTool_run 110000 ''payroll''
                 ''Approved Director and Manager'' ''Staff Accounts'' ''high''))
   \<and> \<not> policy_passed (PolicyValidationTool_run 110000 ''payroll''
                 ''Approved Director and Manager'' ''Staff Accounts'' ''high'')"
proof -
  have big: "(110000 :: rat) > 100000" by simp
  from dual_authorization_unconditional [OF big] big show ?thesis by blast
qed

section \<open>PolicyValidator: the AML/KYC warning and the compliance score\<close>

text \<open>
  Claim C9. For every input with an amount above 10000 the AML/KYC documentation
  warning is among the warnings, so the compliance score is not 1: it is 0.7 when the
  policy passes and 0 when it fails. A compliance score of 1 implies an amount of at
  most 10000.
\<close>

theorem aml_warning_caps_compliance_score:
  "(amount > 10000 \<longrightarrow>
      AmlKycDocumentationRequired
        \<in> set (warnings (PolicyValidationTool_run amount i sender receiver u))
      \<and> compliance_score (PolicyValidationTool_run amount i sender receiver u) \<noteq> 1
      \<and> compliance_score (PolicyValidationTool_run amount i sender receiver u) =
          (if policy_passed (PolicyValidationTool_run amount i sender receiver u)
           then 7 / 10 else 0))
   \<and> (compliance_score (PolicyValidationTool_run amount i sender receiver u) = 1
        \<longrightarrow> amount \<le> 10000)"
  by (simp add: run_compliance_score run_warnings)

theorem aml_warning_caps_compliance_score_witness:
  "(12000 :: rat) > 10000
   \<and> policy_passed (PolicyValidationTool_run 12000 ''vendor'' ''Ops Manager''
        ''Acme Supplies Ltd'' ''medium'')
   \<and> compliance_score (PolicyValidationTool_run 12000 ''vendor'' ''Ops Manager''
        ''Acme Supplies Ltd'' ''medium'') = 7 / 10
   \<and> \<not> policy_passed (PolicyValidationTool_run 12000 ''vendor'' ''Company Operations''
        ''Acme Supplies Ltd'' ''medium'')
   \<and> compliance_score (PolicyValidationTool_run 12000 ''vendor'' ''Company Operations''
        ''Acme Supplies Ltd'' ''medium'') = 0
   \<and> compliance_score (PolicyValidationTool_run 7500 ''vendor'' ''Company Operations''
        ''Acme Supplies Ltd'' ''medium'') = 1
   \<and> (7500 :: rat) \<le> 10000"
proof -
  have big: "(12000 :: rat) > 10000" by simp
  have p1: "policy_passed (PolicyValidationTool_run 12000 ''vendor'' ''Ops Manager''
        ''Acme Supplies Ltd'' ''medium'')"
    by code_simp
  have p2: "\<not> policy_passed (PolicyValidationTool_run 12000 ''vendor'' ''Company Operations''
        ''Acme Supplies Ltd'' ''medium'')"
    by code_simp
  have one: "compliance_score (PolicyValidationTool_run 7500 ''vendor'' ''Company Operations''
        ''Acme Supplies Ltd'' ''medium'') = 1"
    by code_simp
  from aml_warning_caps_compliance_score [of 12000 "''vendor''" "''Ops Manager''"
      "''Acme Supplies Ltd''" "''medium''"] big p1
  have s1: "compliance_score (PolicyValidationTool_run 12000 ''vendor'' ''Ops Manager''
        ''Acme Supplies Ltd'' ''medium'') = 7 / 10"
    by simp
  from aml_warning_caps_compliance_score [of 12000 "''vendor''" "''Company Operations''"
      "''Acme Supplies Ltd''" "''medium''"] big p2
  have s2: "compliance_score (PolicyValidationTool_run 12000 ''vendor'' ''Company Operations''
        ''Acme Supplies Ltd'' ''medium'') = 0"
    by simp
  from aml_warning_caps_compliance_score [of 7500 "''vendor''" "''Company Operations''"
      "''Acme Supplies Ltd''" "''medium''"] one
  have s3: "(7500 :: rat) \<le> 10000" by blast
  from big p1 p2 one s1 s2 s3 show ?thesis by blast
qed

section \<open>PolicyValidator: the spending limit at its boundary\<close>

lemma applicable_limit_table:
  "applicable_limit_of ''refund'' = 15000 \<and> applicable_limit_of ''vendor'' = 30000
   \<and> applicable_limit_of ''payroll'' = 150000 \<and> applicable_limit_of ''investment'' = 100000
   \<and> applicable_limit_of ''emergency'' = 50000 \<and> applicable_limit_of ''tax'' = 200000
   \<and> applicable_limit_of ''loan'' = 75000 \<and> applicable_limit_of ''general'' = 5000
   \<and> applicable_limit_of ''transfer'' = 5000"
  by (simp add: applicable_limit_of_def spending_limits_def)

text \<open>
  Claim C5. For every intent, an amount equal to the intent's applicable limit passes
  the spending-limit check (no spending-limit violation is appended and the amount is
  within the limit), and an amount of the limit plus 0.01 fails it: the spending-limit
  violation is appended and the policy does not pass.
\<close>

theorem spending_limit_boundary:
  "(\<forall>k l a. ExceedsSpendingLimit k l a
       \<notin> set (violations (PolicyValidationTool_run (applicable_limit_of i) i sender receiver u)))
   \<and> amount_within_limit (PolicyValidationTool_run (applicable_limit_of i) i sender receiver u)
   \<and> ExceedsSpendingLimit i (applicable_limit_of i) (applicable_limit_of i + 1 / 100)
       \<in> set (violations
           (PolicyValidationTool_run (applicable_limit_of i + 1 / 100) i sender receiver u))
   \<and> \<not> amount_within_limit
         (PolicyValidationTool_run (applicable_limit_of i + 1 / 100) i sender receiver u)
   \<and> \<not> policy_passed
         (PolicyValidationTool_run (applicable_limit_of i + 1 / 100) i sender receiver u)"
proof -
  have within: "amount_within_limit (PolicyValidationTool_run a i sender receiver u)
      \<longleftrightarrow> a \<le> applicable_limit_of i" for a
    by (simp add: PolicyValidationTool_run_def split: prod.split)
  show ?thesis
    by (simp add: run_violations run_policy_passed within)
qed

section \<open>LiquidityChecker: the daily limit\<close>

text \<open>
  Claim C10. For every account id and intent, the liquidity tool reports
  \<^verbatim>\<open>financially_viable\<close> only if the amount is at most 75000, the fixed daily
  transaction limit: every amount above 75000 is not viable, whatever the balance.
\<close>

theorem viable_within_daily_limit:
  "(financially_viable (LiquidityCheckTool_run amount account_id i) \<longrightarrow> amount \<le> 75000)
   \<and> (amount > 75000 \<longrightarrow> \<not> financially_viable (LiquidityCheckTool_run amount account_id i))"
  by (simp add: LiquidityCheckTool_run_def Let_def)

theorem viable_within_daily_limit_witness:
  "financially_viable (LiquidityCheckTool_run 7500 ''primary'' ''vendor'')
   \<and> (7500 :: rat) \<le> 75000
   \<and> (80000 :: rat) > 75000
   \<and> sufficient_funds (LiquidityCheckTool_run 80000 ''payroll'' ''payroll'')
   \<and> \<not> financially_viable (LiquidityCheckTool_run 80000 ''payroll'' ''payroll'')"
proof -
  have v: "financially_viable (LiquidityCheckTool_run 7500 ''primary'' ''vendor'')"
    by code_simp
  have s: "sufficient_funds (LiquidityCheckTool_run 80000 ''payroll'' ''payroll'')"
    by code_simp
  have big: "(80000 :: rat) > 75000" by simp
  from viable_within_daily_limit [of 7500 "''primary''" "''vendor''"] v
  have a: "(7500 :: rat) \<le> 75000" by blast
  from viable_within_daily_limit [of 80000 "''payroll''" "''payroll''"] big
  have b: "\<not> financially_viable (LiquidityCheckTool_run 80000 ''payroll'' ''payroll'')"
    by blast
  from v a big s b show ?thesis by blast
qed

section \<open>IntentClassifier: the amount bucket\<close>

lemma run_amount_category:
  "amount_category (IntentAnalysisTool_run parse amount sender receiver purpose ts ctx) =
     (if amount > 25000 then ''high'' else if amount > 5000 then ''medium'' else ''low'')"
  by (simp add: IntentAnalysisTool_run_def Let_def split: prod.split)

lemma run_is_off_hours:
  "is_off_hours (IntentAnalysisTool_run parse amount sender receiver purpose ts ctx) =
     (case parse ts of Some tx_time \<Rightarrow> hour tx_time < 6 \<or> hour tx_time > 22 | None \<Rightarrow> False)"
  by (simp add: IntentAnalysisTool_run_def Let_def split: prod.split)

text \<open>
  Claim C8, as stated: the bucket is "low" exactly below 5000 and "medium" exactly from
  5000 to 25000. At an amount of exactly 5000 the tool answers "low", not "medium":
  the test of the source is \<^verbatim>\<open>amount > 5000\<close>.
\<close>

theorem amount_category_at_5000:
  "(5000 :: rat) \<ge> 5000 \<and> (5000 :: rat) \<le> 25000 \<and> \<not> (5000 :: rat) < 5000
   \<and> amount_category (IntentAnalysisTool_run (\<lambda>s. Some \<lparr>hour = 14, weekday = 2\<rparr>) 5000
        ''Company Operations'' ''Acme Supplies Ltd'' ''Vendor payment for supplies''
        ''2026-01-07T14:15:00'' ''no context'') = ''low''
   \<and> amount_category (IntentAnalysisTool_run (\<lambda>s. Some \<lparr>hour = 14, weekday = 2\<rparr>) 5000
        ''Company Operations'' ''Acme Supplies Ltd'' ''Vendor payment for supplies''
        ''2026-01-07T14:15:00'' ''no context'') \<noteq> ''medium''"
  by code_simp

text \<open>
  Claim C8, amended. For every amount the bucket is "low" exactly when the amount is
  at most 5000, "medium" exactly when it is above 5000 and at most 25000, and "high"
  exactly when it is above 25000.
\<close>

theorem amount_category_buckets:
  "(amount_category (IntentAnalysisTool_run parse amount sender receiver purpose ts ctx)
      = ''low'' \<longleftrightarrow> amount \<le> 5000)
   \<and> (amount_category (IntentAnalysisTool_run parse amount sender receiver purpose ts ctx)
      = ''medium'' \<longleftrightarrow> 5000 < amount \<and> amount \<le> 25000)
   \<and> (amount_category (IntentAnalysisTool_run parse amount sender receiver purpose ts ctx)
      = ''high'' \<longleftrightarrow> amount > 25000)"
  by (simp add: run_amount_category)

section \<open>RiskScorer: the amount tiers\<close>

text \<open>Only the amount rule produces one of the three tier tags.\<close>

lemma tier_filter_amount:
  "filter (\<lambda>t. t \<in> set [''very_high_amount'', ''high_amount'', ''elevated_amount''])
     (if amount > (100000 :: rat) then [''very_high_amount'']
      else if amount > 50000 then [''high_amount'']
      else if amount > 25000 then [''elevated_amount''] else []) =
     (if amount > 100000 then [''very_high_amount'']
      else if amount > 50000 then [''high_amount'']
      else if amount > 25000 then [''elevated_amount''] else [])"
  by simp

lemma tier_filter_time:
  "filter (\<lambda>t. t \<in> set [''very_high_amount'', ''high_amount'', ''elevated_amount''])
     (case parse ts of
          None \<Rightarrow> [''invalid_timestamp'']
        | Some t \<Rightarrow> (if hour t < 6 \<or> hour t > 22 then [''off_hours_transaction''] else [])
                    @ (if weekday t \<ge> 5 then [''weekend_transaction''] else [])) = []"
  by (simp split: option.split)

lemma tier_filter_receiver:
  "filter (\<lambda>t. t \<in> set [''very_high_amount'', ''high_amount'', ''elevated_amount''])
     (if c then [''suspicious_receiver''] else []) = []"
  by simp

lemma tier_filter_history:
  "filter (\<lambda>t. t \<in> set [''very_high_amount'', ''high_amount'', ''elevated_amount''])
     (if c then [''unknown_sender_history''] else if d then [''new_sender''] else []) = []"
  by simp

lemma tier_filter_intent:
  "filter (\<lambda>t. t \<in> set [''very_high_amount'', ''high_amount'', ''elevated_amount''])
     (if c then [''high_risk_intent_'' @ i] else []) = []"
  by simp

lemma tier_filter_round:
  "filter (\<lambda>t. t \<in> set [''very_high_amount'', ''high_amount'', ''elevated_amount''])
     (if c then [''suspicious_round_amount''] else []) = []"
  by simp

lemma tier_tags_of_run:
  "filter (\<lambda>t. t \<in> set [''very_high_amount'', ''high_amount'', ''elevated_amount''])
     (risk_factors (RiskAssessmentTool_run parse amount sender receiver i ts hist)) =
     (if amount > 100000 then [''very_high_amount'']
      else if amount > 50000 then [''high_amount'']
      else if amount > 25000 then [''elevated_amount''] else [])"
  unfolding run_risk_factors risk_rules_factors filter_append
    tier_filter_amount tier_filter_time tier_filter_receiver tier_filter_history
    tier_filter_intent tier_filter_round
  by (simp only: append_Nil2)

text \<open>
  Claim C3, as stated: every amount greater than or equal to 100000 gets the
  very-high tier. At exactly 100000 the amount rule adds 0.15 with the tag
  "high_amount", and "very_high_amount" is not among the risk factors: the test of the
  source is \<^verbatim>\<open>amount > 100000\<close>.
\<close>

theorem amount_tier_at_100000:
  "(100000 :: rat) \<ge> 100000
   \<and> amount_risk 100000 (0, []) = (15 / 100, [''high_amount''])
   \<and> ''very_high_amount'' \<notin> set (risk_factors
        (RiskAssessmentTool_run (\<lambda>s. Some \<lparr>hour = 14, weekday = 2\<rparr>) 100000
           ''Treasury Director'' ''Acme Supplies Ltd'' ''vendor'' ''2026-01-07T14:15:00''
           ''established''))
   \<and> ''high_amount'' \<in> set (risk_factors
        (RiskAssessmentTool_run (\<lambda>s. Some \<lparr>hour = 14, weekday = 2\<rparr>) 100000
           ''Treasury Director'' ''Acme Supplies Ltd'' ''vendor'' ''2026-01-07T14:15:00''
           ''established''))"
  by code_simp

text \<open>
  Claim C3, amended. For every amount strictly above 100000 the amount rule adds 0.25
  and the tag "very_high_amount", and of the three tier tags the risk factors hold that
  one only. For every amount the tiers are mutually exclusive and the highest matching
  tier wins: the tier tags among the risk factors are "very_high_amount" above 100000,
  else "high_amount" above 50000, else "elevated_amount" above 25000, else none.
\<close>

theorem amount_tiers_exclusive:
  "(amount > 100000 \<longrightarrow>
      amount_risk amount (s, fs) = (s + 25 / 100, fs @ [''very_high_amount''])
      \<and> filter (\<lambda>t. t \<in> set [''very_high_amount'', ''high_amount'', ''elevated_amount''])
          (risk_factors (RiskAssessmentTool_run parse amount sender receiver i ts hist))
        = [''very_high_amount''])
   \<and> filter (\<lambda>t. t \<in> set [''very_high_amount'', ''high_amount'', ''elevated_amount''])
       (risk_factors (RiskAssessmentTool_run parse amount sender receiver i ts hist)) =
       (if amount > 100000 then [''very_high_amount'']
        else if amount > 50000 then [''high_amount'']
        else if amount > 25000 then [''elevated_amount''] else [])"
  unfolding tier_tags_of_run
  by (simp add: amount_risk_eq)

theorem amount_tiers_exclusive_witness:
  "(110000 :: rat) > 100000
   \<and> amount_risk 110000 (0, []) = (25 / 100, [''very_high_amount''])
   \<and> filter (\<lambda>t. t \<in> set [''very_high_amount'', ''high_amount'', ''elevated_amount''])
          (risk_factors (RiskAssessmentTool_run (\<lambda>s. Some \<lparr>hour = 14, weekday = 2\<rparr>) 110000
             ''Treasury Director'' ''Acme Supplies Ltd'' ''vendor'' ''2026-01-07T14:15:00''
             ''established''))
        = [''very_high_amount'']"
proof -
  have big: "(110000 :: rat) > 100000" by simp
  from amount_tiers_exclusive [of 110000 0 "[]" "\<lambda>s. Some \<lparr>hour = 14, weekday = 2\<rparr>"
      "''Treasury Director''" "''Acme Supplies Ltd''" "''vendor''" "''2026-01-07T14:15:00''"
      "''established''"] big
  show ?thesis by simp
qed

section \<open>Timestamps that fail to parse\<close>

text \<open>
  Claim C6. For every timestamp that fails to parse, the time rule of the risk tool
  adds exactly 0.05 with the tag "invalid_timestamp"; of the three time tags the risk
  factors hold that one only, so neither the off-hours nor the weekend contribution is
  added; and the intent tool returns its result with \<^verbatim>\<open>is_off_hours\<close> false.
\<close>

theorem unparsed_timestamp_flat_penalty:
  "parse ts = None \<Longrightarrow>
     time_risk parse ts (s, fs) = (s + 5 / 100, fs @ [''invalid_timestamp''])
     \<and> filter (\<lambda>t. t \<in> set [''invalid_timestamp'', ''off_hours_transaction'',
                              ''weekend_transaction''])
         (risk_factors (RiskAssessmentTool_run parse amount sender receiver i ts hist))
       = [''invalid_timestamp'']
     \<and> is_off_hours (IntentAnalysisTool_run parse amount' sender' receiver' purpose ts ctx)
       = False"
proof -
  assume none: "parse ts = None"
  have step: "time_risk parse ts (s, fs) = (s + 5 / 100, fs @ [''invalid_timestamp''])"
    by (simp add: time_risk_def none)
  have tags: "filter (\<lambda>t. t \<in> set [''invalid_timestamp'', ''off_hours_transaction'',
                              ''weekend_transaction''])
         (risk_factors (RiskAssessmentTool_run parse amount sender receiver i ts hist))
       = [''invalid_timestamp'']"
    unfolding run_risk_factors risk_rules_factors none
    by simp
  have off: "is_off_hours (IntentAnalysisTool_run parse amount' sender' receiver' purpose ts ctx)
       = False"
    by (simp add: run_is_off_hours none)
  from step tags off show ?thesis by blast
qed

theorem unparsed_timestamp_flat_penalty_witness:
  "(\<lambda>s. if s = ''2026-01-03T00:30:00'' then Some \<lparr>hour = 0, weekday = 5\<rparr> else None)
      ''03/01/2026 00:30'' = None
   \<and> time_risk
        (\<lambda>s. if s = ''2026-01-03T00:30:00'' then Some \<lparr>hour = 0, weekday = 5\<rparr> else None)
        ''03/01/2026 00:30'' (0, []) = (5 / 100, [''invalid_timestamp''])
   \<and> filter (\<lambda>t. t \<in> set [''invalid_timestamp'', ''off_hours_transaction'',
                              ''weekend_transaction''])
         (risk_factors (RiskAssessmentTool_run
            (\<lambda>s. if s = ''2026-01-03T00:30:00'' then Some \<lparr>hour = 0, weekday = 5\<rparr> else None)
            7500 ''Company Operations'' ''Acme Supplies Ltd'' ''vendor'' ''03/01/2026 00:30''
            ''unknown''))
       = [''invalid_timestamp'']
   \<and> is_off_hours (IntentAnalysisTool_run
        (\<lambda>s. if s = ''2026-01-03T00:30:00'' then Some \<lparr>hour = 0, weekday = 5\<rparr> else None)
        7500 ''Company Operations'' ''Acme Supplies Ltd'' ''Vendor payment'' ''03/01/2026 00:30''
        ''no context'') = False"
proof -
  let ?parse = "\<lambda>s. if s = ''2026-01-03T00:30:00'' then Some \<lparr>hour = 0, weekday = 5\<rparr>
                    else None"
  have none: "?parse ''03/01/2026 00:30'' = None" by simp
  note inst = unparsed_timestamp_flat_penalty [where parse = ?parse
      and ts = "''03/01/2026 00:30''" and s = 0 and fs = "[]" and amount = 7500
      and sender = "''Company Operations''" and receiver = "''Acme Supplies Ltd''"
      and i = "''vendor''" and hist = "''unknown''" and amount' = 7500
      and sender' = "''Company Operations''" and receiver' = "''Acme Supplies Ltd''"
      and purpose = "''Vendor payment''" and ctx = "''no context''"]
  from inst none show ?thesis by simp
qed

section \<open>AuditRecorder: the verification hash\<close>

text \<open>
  Claim C1 asks that the verification hash be a function of the record's stable fields
  and that changing a stage output change it. The tool hashes the transaction id, the
  decision and a fresh reading of the clock, and nothing else: the hash is the builtin
  hash of the serialised payload with the reading \<open>now_hash\<close> in it, and two runs that
  differ in the agent outputs (and in the rationale, the decision maker and the record's
  own timestamp) have the same hash.
\<close>

theorem verification_hash_ignores_stage_outputs:
  "result_verification_hash
     (AuditLogTool_run rt now_record now_hash tx dec outputs why maker) =
     py_hash rt (json_dumps rt
       (JObj [(''decision'', JStr dec), (''timestamp'', JStr now_hash), (''tx_id'', JStr tx)]))
   \<and> result_verification_hash
       (AuditLogTool_run rt now_record now_hash tx dec outputs why maker) =
     result_verification_hash
       (AuditLogTool_run rt now_record' now_hash tx dec outputs' why' maker')"
  by (simp add: AuditLogTool_run_def make_audit_record_def hash_payload_def Let_def)

end
